theory Spec2Isabelle
  imports Main "HOL-Library.Word"
begin

unbundle bit_operations_syntax

section \<open>Platform, build configuration and shared state\<close>

text \<open>
  The two backends (\<open>mqtt_backend.c\<close> and the CoAP backend) are C translation units over
  the Zephyr socket, MQTT and CoAP libraries. The libraries are outside the repository:
  every result a library call hands back is an argument of the model (an environment
  record), and every library call the code makes is appended to a call trace. Static
  variables are fields of a state record that each function takes and returns.
\<close>

type_synonym u8 = "8 word"
type_synonym u16 = "16 word"
type_synonym u32 = "32 word"

text \<open>
  The values of \<open>errno.h\<close> and the sizes of the socket address structures come from the
  C library and the network stack; they are parameters.
\<close>

record platform =
  EIO :: int
  ENOENT :: int
  EAGAIN :: int
  EWOULDBLOCK :: int
  ENOMEM :: int
  EMSGSIZE :: int
  ESOCKTNOSUPPORT :: int
  sizeof_sockaddr_in :: nat
  sizeof_sockaddr_in6 :: nat

text \<open>The Kconfig options the code is compiled with (\<open>#if defined(...)\<close> and values).\<close>

record kconfig =
  CONFIG_CLOUD_API :: bool
  CONFIG_COAP_BACKEND_DTLS_ENABLE :: bool
  CONFIG_MQTT_BACKEND_IPV6 :: bool
  CONFIG_MQTT_BACKEND_CLIENT_ID_STATIC :: string
  CONFIG_MQTT_BACKEND_CLIENT_ID_MAX_LEN :: nat
  CONFIG_MQTT_BACKEND_BROKER_PORT :: u16
  CONFIG_COAP_BACKEND_SERVER_PORT :: u16
  CONFIG_COAP_BACKEND_RESOURCE :: string

text \<open>A callback is a function pointer: its address, \<open>None\<close> for \<open>NULL\<close>.\<close>

type_synonym handler = nat

datatype coap_backend_evt_type =
    COAP_BACKEND_EVT_CONNECTED
  | COAP_BACKEND_EVT_READY
  | COAP_BACKEND_EVT_DISCONNECTED
  | COAP_BACKEND_EVT_DATA_RECEIVED
  | COAP_BACKEND_EVT_ERROR
  | COAP_BACKEND_EVT_FOTA_DONE

datatype mqtt_backend_evt_type =
    MQTT_BACKEND_EVT_CONNECTED
  | MQTT_BACKEND_EVT_READY
  | MQTT_BACKEND_EVT_DISCONNECTED
  | MQTT_BACKEND_EVT_DATA_RECEIVED
  | MQTT_BACKEND_EVT_FOTA_DONE

text \<open>The members of the cloud library's \<open>enum cloud_event_type\<close> that the backends use.\<close>

datatype cloud_evt_type =
    CLOUD_EVT_CONNECTED
  | CLOUD_EVT_READY
  | CLOUD_EVT_DISCONNECTED
  | CLOUD_EVT_ERROR
  | CLOUD_EVT_DATA_RECEIVED

datatype evt_kind =
    Coap coap_backend_evt_type
  | Mqtt mqtt_backend_evt_type
  | Cloud cloud_evt_type

text \<open>
  An event structure (\<open>struct coap_backend_event\<close>, \<open>struct mqtt_backend_evt\<close>,
  \<open>struct cloud_event\<close>): its type, the buffer its data pointer refers to as it is when
  the event is delivered (\<open>None\<close> for a \<open>NULL\<close> pointer), and its length field.
\<close>

record event =
  evt_type :: evt_kind
  evt_ptr :: "u8 list option"
  evt_len :: nat

definition evt :: "evt_kind \<Rightarrow> event" where
  "evt k = \<lparr>evt_type = k, evt_ptr = None, evt_len = 0\<rparr>"

datatype log_level = LOG_ERR | LOG_DBG

datatype coap_msgtype = COAP_TYPE_CON | COAP_TYPE_NON_CON | COAP_TYPE_ACK | COAP_TYPE_RESET

text \<open>
  The library calls whose arguments the properties below speak about.
  \<open>Coap_packet_init ver type tokenlen token code id\<close> is a call of \<open>coap_packet_init\<close>
  (the token argument as the bytes it points to, \<open>[]\<close> for \<open>NULL\<close>).
\<close>

datatype lib_call =
    Coap_packet_init nat coap_msgtype nat "u8 list" u8 u16
  | Coap_packet_append_option nat string
  | Coap_packet_append_payload_marker
  | Coap_packet_append_payload "u8 list"
  | Send int
  | Close int
  | Freeaddrinfo
  | Mqtt_readall_publish_payload nat
  | Mqtt_publish_qos1_ack u16

text \<open>
  \<open>struct cloud_backend_config\<close> of the backend object that \<open>CLOUD_BACKEND_DEFINE\<close>
  creates: the fields the backends touch.
\<close>

record cloud_backend_config =
  handler :: "handler option"
  socket :: int
  backend_id :: string

text \<open>
  What both translation units hold: the observer of the standalone build
  (\<open>module_evt_handler\<close>), whether the static backend pointer of the plugin build
  (\<open>coap_backend\<close>, \<open>mqtt_backend\<close>) has been set, the backend object's configuration,
  and the observable history: the events handed to an observer, the log lines, the
  library calls. \<open>faulted\<close> records a call or a read through a \<open>NULL\<close> pointer; it is
  never cleared, and nothing recorded after it happens on the target.
\<close>

record backend_state =
  module_evt_handler :: "handler option"
  cloud_backend :: bool
  backend_config :: cloud_backend_config
  delivered :: "(handler \<times> event) list"
  logged :: "(log_level \<times> string) list"
  calls :: "lib_call list"
  faulted :: bool

definition log :: "log_level \<Rightarrow> string \<Rightarrow> 'a backend_state_scheme \<Rightarrow> 'a backend_state_scheme" where
  "log lvl msg s = s\<lparr>logged := logged s @ [(lvl, msg)]\<rparr>"

definition call :: "lib_call \<Rightarrow> 'a backend_state_scheme \<Rightarrow> 'a backend_state_scheme" where
  "call c s = s\<lparr>calls := calls s @ [c]\<rparr>"

text \<open>A call through a function pointer: \<open>h(evt)\<close>.\<close>

definition invoke :: "handler option \<Rightarrow> event \<Rightarrow> 'a backend_state_scheme \<Rightarrow> 'a backend_state_scheme" where
  "invoke h e s =
     (case h of
        None \<Rightarrow> s\<lparr>faulted := True\<rparr>
      | Some f \<Rightarrow> s\<lparr>delivered := delivered s @ [(f, e)]\<rparr>)"

text \<open>
  \<open>cloud_notify_event(backend, evt, user_data)\<close> is an inline function of the cloud
  library's header: it reads \<open>backend->config->handler\<close> and calls it when it is set.
  The backends pass their static backend pointer, which is \<open>NULL\<close> until \<open>c_init\<close>.
\<close>

definition cloud_notify_event :: "event \<Rightarrow> 'a backend_state_scheme \<Rightarrow> 'a backend_state_scheme" where
  "cloud_notify_event e s =
     (if cloud_backend s then
        (case handler (backend_config s) of
           None \<Rightarrow> s
         | Some f \<Rightarrow> invoke (Some f) e s)
      else s\<lparr>faulted := True\<rparr>)"

text \<open>
  A socket address as the code writes it into a \<open>struct sockaddr_storage\<close>: all zero
  (static storage), or written through a \<open>struct sockaddr_in\<close> view (address, port), or
  through a \<open>struct sockaddr_in6\<close> view.
\<close>

datatype sockaddr =
    Sockaddr_zero
  | Sockaddr_in u32 u16
  | Sockaddr_in6 "u8 list" u16

text \<open>
  One entry of the list \<open>getaddrinfo\<close> returns. The code never looks at the entry's
  own family; it reads the address through a cast of \<open>ai_addr\<close>, so an entry carries
  what each cast reads: \<open>ai_addr_sin\<close> is
  \<open>((struct sockaddr_in *)ai_addr)->sin_addr.s_addr\<close> and \<open>ai_addr_sin6\<close> is
  \<open>((struct sockaddr_in6 *)ai_addr)->sin6_addr.s6_addr\<close>.
\<close>

datatype family = AF_INET | AF_INET6

record addrinfo =
  ai_family :: family
  ai_addrlen :: nat
  ai_addr_sin :: u32
  ai_addr_sin6 :: "u8 list"

text \<open>The result of \<open>getaddrinfo\<close>: its return value and the list it stores.\<close>

record gai_result =
  gai_err :: int
  gai_list :: "addrinfo list"

text \<open>\<open>htons\<close> on the little-endian target: the two bytes swapped.\<close>

definition htons :: "u16 \<Rightarrow> u16" where
  "htons x = (push_bit 8 x) OR (drop_bit 8 x)"


section \<open>The CoAP backend\<close>

text \<open>
  The static variables of the CoAP translation unit: \<open>host_addr\<close>, \<open>client_fd\<close>,
  \<open>next_token\<close> (a \<open>u16_t\<close>), and the thread's \<open>errno\<close>.
\<close>

record coap_state = backend_state +
  host_addr :: sockaddr
  client_fd :: int
  next_token :: u16
  errno :: int

definition APP_COAP_VERSION :: nat where
  "APP_COAP_VERSION = 1"

text \<open>From the CoAP library's header: the PUT method code and the Uri-Path option number.\<close>

definition COAP_METHOD_PUT :: u8 where
  "COAP_METHOD_PUT = 3"

definition COAP_OPTION_URI_PATH :: nat where
  "COAP_OPTION_URI_PATH = 11"

text \<open>
  \<open>(u8_t *)&next_token\<close> with \<open>sizeof(next_token)\<close>: the two bytes of the token as they
  lie in memory on the little-endian target (the code's own log prints
  \<open>token[1], token[0]\<close> as the value).
\<close>

definition token_bytes :: "u16 \<Rightarrow> u8 list" where
  "token_bytes t = [ucast t, ucast (drop_bit 8 t)]"

text \<open>\<open>coap_backend_notify_event\<close> (standalone build): the event pointer may be \<open>NULL\<close>.\<close>

definition coap_backend_notify_event :: "event option \<Rightarrow> coap_state \<Rightarrow> coap_state" where
  "coap_backend_notify_event e s =
     (case module_evt_handler s of
        None \<Rightarrow> s
      | Some f \<Rightarrow> (case e of None \<Rightarrow> s | Some ev \<Rightarrow> invoke (Some f) ev s))"

text \<open>
  \<open>server_resolve\<close>: the first entry of the list is copied through the
  \<open>struct sockaddr_in\<close> view, whatever the entry is.
\<close>

definition server_resolve :: "platform \<Rightarrow> kconfig \<Rightarrow> gai_result \<Rightarrow> coap_state \<Rightarrow> int \<times> coap_state" where
  "server_resolve P cfg gai s =
     (if gai_err gai \<noteq> 0 then
        (- EIO P, log LOG_ERR ''ERROR: getaddrinfo failed %d'' s)
      else
        (case gai_list gai of
           [] \<Rightarrow> (- ENOENT P, log LOG_ERR ''ERROR: Address not found'' s)
         | result # rest \<Rightarrow>
             (0, call Freeaddrinfo
                   (log LOG_DBG ''IPv4 Address found %s''
                      (s\<lparr>host_addr :=
                           Sockaddr_in (ai_addr_sin result)
                             (htons (CONFIG_COAP_BACKEND_SERVER_PORT cfg))\<rparr>)))))"

text \<open>
  \<open>coap_backend_ping\<close>. The environment: the message id from \<open>coap_next_id\<close>, the
  result of \<open>coap_packet_init\<close>, the result of \<open>send\<close> and \<open>errno\<close> after it.
\<close>

record ping_env =
  ping_id :: u16
  ping_init_err :: int
  ping_send_ret :: int
  ping_send_errno :: int

definition coap_backend_ping :: "ping_env \<Rightarrow> coap_state \<Rightarrow> int \<times> coap_state" where
  "coap_backend_ping env s =
     (let s1 = s\<lparr>next_token := 0\<rparr>;
          s2 = call (Coap_packet_init APP_COAP_VERSION COAP_TYPE_CON 0 [] 0 (ping_id env)) s1
      in if ping_init_err env < 0 then
           (ping_init_err env, log LOG_ERR ''Failed to create CoAP request, %d'' s2)
         else
           (let s3 = (call (Send (client_fd s2)) s2)\<lparr>errno := ping_send_errno env\<rparr>
            in if ping_send_ret env < 0 then
                 (- errno s3, log LOG_ERR ''Failed to send CoAP PING, %d'' s3)
               else (0, log LOG_DBG ''CoAP PING sent: token 0x%04x'' s3)))"

text \<open>
  \<open>coap_backend_input\<close>. The environment: the return value of \<open>recv\<close> and \<open>errno\<close>
  after it, the result of \<open>coap_packet_parse\<close>, the payload and the token of the reply
  as \<open>coap_packet_get_payload\<close> and \<open>coap_header_get_token\<close> hand them back (the latter
  copies the token into the local array and returns its length), and what the local
  array \<open>token[8]\<close> held before (it is not initialised).
\<close>

record input_env =
  received :: int
  recv_errno :: int
  parse_err :: int
  reply_payload :: "u8 list"
  reply_token :: "u8 list"
  stack_token :: "u8 list"

text \<open>The local array \<open>token\<close> after \<open>coap_header_get_token\<close> has copied the reply's token.\<close>

definition token_array :: "input_env \<Rightarrow> u8 list" where
  "token_array env = reply_token env @ drop (length (reply_token env)) (stack_token env)"

text \<open>
  The error notification of both failure branches: \<open>cloud_notify_event\<close> in the plugin
  build, which then runs on; \<open>coap_backend_notify_event\<close> followed by
  \<open>return -ESOCKTNOSUPPORT\<close> in the standalone build (\<open>Inl\<close> is the return).
\<close>

definition input_error :: "platform \<Rightarrow> kconfig \<Rightarrow> coap_state \<Rightarrow> (int \<times> coap_state) + coap_state" where
  "input_error P cfg s =
     (if CONFIG_CLOUD_API cfg then Inr (cloud_notify_event (evt (Cloud CLOUD_EVT_ERROR)) s)
      else Inl (- ESOCKTNOSUPPORT P,
                coap_backend_notify_event (Some (evt (Coap COAP_BACKEND_EVT_ERROR))) s))"

text \<open>The format string of the log line of an accepted reply, with its final newline.\<close>

definition coap_response_fmt :: string where
  "coap_response_fmt = ''CoAP response: code: 0x%x, token 0x%02x%02x, payload: %s\<newline>''"

text \<open>From \<open>coap_packet_get_payload\<close> to the end of the function.\<close>

definition input_reply :: "input_env \<Rightarrow> coap_state \<Rightarrow> int \<times> coap_state" where
  "input_reply env s =
     (let token_len = length (reply_token env) in
      if token_len \<noteq> 2 \<and> take 2 (token_array env) \<noteq> token_bytes (next_token s) then
        (0, log LOG_DBG ''Invalid token received: 0x%02x%02x'' s)
      else
        (0, log LOG_DBG coap_response_fmt s))"

text \<open>From \<open>if (received == 0)\<close> on.\<close>

definition input_datagram :: "platform \<Rightarrow> kconfig \<Rightarrow> input_env \<Rightarrow> coap_state \<Rightarrow> int \<times> coap_state" where
  "input_datagram P cfg env s =
     (if received env = 0 then (0, log LOG_ERR ''Empty datagram'' s)
      else if parse_err env < 0 then
        (case input_error P cfg (log LOG_ERR ''Malformed response received: %d'' s) of
           Inl r \<Rightarrow> r
         | Inr s1 \<Rightarrow> input_reply env s1)
      else input_reply env s)"

definition coap_backend_input :: "platform \<Rightarrow> kconfig \<Rightarrow> input_env \<Rightarrow> coap_state \<Rightarrow> int \<times> coap_state" where
  "coap_backend_input P cfg env s0 =
     (let s = s0\<lparr>errno := recv_errno env\<rparr> in
      if received env = EAGAIN P \<or> received env = EWOULDBLOCK P then
        (0, log LOG_DBG ''socket EAGAIN'' s)
      else if received env < 0 then
        (case input_error P cfg (log LOG_DBG ''Socket error, exit...'' s) of
           Inl r \<Rightarrow> r
         | Inr s1 \<Rightarrow> input_datagram P cfg env s1)
      else input_datagram P cfg env s)"

text \<open>
  \<open>coap_backend_send\<close>. The payload handed to \<open>coap_packet_append_payload\<close> is the
  first \<open>len\<close> bytes of \<open>str\<close>. The environment: the message id and the results of the
  four packet-building calls and of \<open>send\<close>.
\<close>

record coap_backend_tx_data =
  tx_str :: "u8 list"
  tx_len :: nat

record send_env =
  send_id :: u16
  send_init_err :: int
  send_option_err :: int
  send_marker_err :: int
  send_payload_err :: int
  send_ret :: int
  send_errno :: int

definition coap_backend_send :: "kconfig \<Rightarrow> coap_backend_tx_data \<Rightarrow> send_env \<Rightarrow> coap_state \<Rightarrow> int \<times> coap_state" where
  "coap_backend_send cfg tx_data env s =
     (let s1 = s\<lparr>next_token := next_token s + 1\<rparr>;
          s2 = call (Coap_packet_init APP_COAP_VERSION COAP_TYPE_NON_CON 2
                       (token_bytes (next_token s1)) COAP_METHOD_PUT (send_id env)) s1
      in if send_init_err env < 0 then
           (send_init_err env, log LOG_ERR ''Failed to create CoAP request, %d'' s2)
         else
           (let s3 = call (Coap_packet_append_option COAP_OPTION_URI_PATH
                             (CONFIG_COAP_BACKEND_RESOURCE cfg)) s2
            in if send_option_err env < 0 then
                 (send_option_err env, log LOG_ERR ''Failed to encode CoAP option, %d'' s3)
               else
                 (let s4 = call Coap_packet_append_payload_marker s3
                  in if send_marker_err env < 0 then
                       (send_marker_err env,
                        log LOG_ERR ''Failed to encode CoAP payload marker, %d'' s4)
                     else
                       (let s5 = call (Coap_packet_append_payload
                                         (take (tx_len tx_data) (tx_str tx_data))) s4
                        in if send_payload_err env < 0 then
                             (send_payload_err env,
                              log LOG_ERR ''Failed to encode CoAP payload, %d'' s5)
                           else
                             (let s6 = (call (Send (client_fd s5)) s5)\<lparr>errno := send_errno env\<rparr>
                              in if send_ret env < 0 then
                                   (- errno s6, log LOG_ERR ''Failed to send CoAP request, %d'' s6)
                                 else
                                   (0, log LOG_DBG ''CoAP request sent: token 0x%04x'' s6))))))"


text \<open>
  \<open>coap_backend_connect\<close>. \<open>struct coap_backend_config\<close> is the caller's structure, passed
  by pointer (\<open>None\<close> for \<open>NULL\<close>) and handed back as the call leaves it. The
  environment: the results of \<open>socket\<close>, \<open>setsockopt\<close> and \<open>connect\<close>, \<open>errno\<close> after each
  of them and after \<open>close\<close>, and the value of \<open>sys_rand32_get\<close>.
\<close>

record coap_backend_config =
  config_socket :: int

record connect_env =
  socket_ret :: int
  socket_errno :: int
  setsockopt_ret :: int
  setsockopt_errno :: int
  connect_ret :: int
  connect_errno :: int
  close_errno :: int
  rand32 :: u32

text \<open>The label \<open>error:\<close> of \<open>coap_backend_connect\<close>.\<close>

definition connect_error :: "coap_backend_config option \<Rightarrow> connect_env \<Rightarrow> coap_state \<Rightarrow> int \<times> coap_backend_config option \<times> coap_state" where
  "connect_error config env s =
     (let s1 = (call (Close (client_fd s)) s)\<lparr>errno := close_errno env\<rparr>
      in (- errno s1, config, s1))"

text \<open>\<open>config->socket = client_fd\<close>, compiled in the standalone build only.\<close>

definition connect_expose :: "kconfig \<Rightarrow> coap_backend_config option \<Rightarrow> coap_state \<Rightarrow> coap_backend_config option \<times> coap_state" where
  "connect_expose cfg config s =
     (if CONFIG_CLOUD_API cfg then (config, s)
      else (case config of
              None \<Rightarrow> (None, s\<lparr>faulted := True\<rparr>)
            | Some c \<Rightarrow> (Some (c\<lparr>config_socket := client_fd s\<rparr>), s)))"

definition coap_backend_connect :: "kconfig \<Rightarrow> coap_backend_config option \<Rightarrow> connect_env \<Rightarrow> coap_state \<Rightarrow> int \<times> coap_backend_config option \<times> coap_state" where
  "coap_backend_connect cfg config env s =
     (let s1 = s\<lparr>client_fd := socket_ret env, errno := socket_errno env\<rparr> in
      if client_fd s1 < 0 then
        (if CONFIG_COAP_BACKEND_DTLS_ENABLE cfg then
           (- errno s1, config, log LOG_ERR ''Failed to create CoAP socket: %d.'' s1)
         else connect_error config env (log LOG_ERR ''Failed to create CoAP socket: %d.'' s1))
      else
        (let s2 = (if CONFIG_COAP_BACKEND_DTLS_ENABLE cfg
                   then s1\<lparr>errno := setsockopt_errno env\<rparr> else s1)
         in if CONFIG_COAP_BACKEND_DTLS_ENABLE cfg \<and> setsockopt_ret env < 0 then
              connect_error config env
                (log LOG_ERR ''Failed to set TLS_SEC_TAG_LIST option: %d'' s2)
            else
              (let s3 = s2\<lparr>errno := connect_errno env\<rparr>
               in if connect_ret env < 0 then
                    connect_error config env (log LOG_ERR ''Connect failed : %d'' s3)
                  else
                    (case connect_expose cfg config s3 of
                       (config', s4) \<Rightarrow>
                         (0, config', s4\<lparr>next_token := ucast (rand32 env)\<rparr>)))))"

text \<open>\<open>coap_backend_init\<close>: neither argument is used.\<close>

definition coap_backend_init :: "platform \<Rightarrow> kconfig \<Rightarrow> coap_backend_config option \<Rightarrow> handler option \<Rightarrow> gai_result \<Rightarrow> coap_state \<Rightarrow> int \<times> coap_state" where
  "coap_backend_init P cfg config event_handler gai s = server_resolve P cfg gai s"

text \<open>
  The plugin build's \<open>c_init\<close> and \<open>c_connect\<close> of the CoAP translation unit. The
  parameter \<open>backend\<close> points to the backend object; \<open>c_connect\<close> calls
  \<open>backend->config->handler\<close> directly.
\<close>

definition coap_c_init :: "handler option \<Rightarrow> coap_state \<Rightarrow> int \<times> coap_state" where
  "coap_c_init h s =
     (0, s\<lparr>backend_config := (backend_config s)\<lparr>handler := h\<rparr>, cloud_backend := True\<rparr>)"

definition coap_c_connect :: "platform \<Rightarrow> kconfig \<Rightarrow> gai_result \<Rightarrow> connect_env \<Rightarrow> coap_state \<Rightarrow> int \<times> coap_state" where
  "coap_c_connect P cfg gai env s =
     (case coap_backend_init P cfg None None gai s of
        (err, s1) \<Rightarrow>
          if err \<noteq> 0 then (err, log LOG_ERR ''coap_backend_init, error: err'' s1)
          else
            (case coap_backend_connect cfg None env s1 of
               (err, config, s2) \<Rightarrow>
                 if err \<noteq> 0 then (err, s2)
                 else
                   (let s3 = s2\<lparr>backend_config := (backend_config s2)\<lparr>socket := client_fd s2\<rparr>\<rparr>;
                        s4 = invoke (handler (backend_config s3)) (evt (Cloud CLOUD_EVT_CONNECTED)) s3;
                        s5 = invoke (handler (backend_config s4)) (evt (Cloud CLOUD_EVT_READY)) s4
                    in (err, s5))))"

section \<open>The MQTT backend\<close>

text \<open>
  The static variables of \<open>mqtt_backend.c\<close> that the functions below touch. The two
  character arrays hold C strings: the model keeps the characters before the
  terminating zero. \<open>payload_buf\<close> is an array of
  \<open>CONFIG_MQTT_BACKEND_MQTT_PAYLOAD_BUFFER_LEN\<close> bytes: a list of that length, so
  \<open>sizeof(payload_buf)\<close> is its length.
\<close>

record mqtt_state = backend_state +
  client_id_buf :: string
  update_topic :: string
  payload_buf :: "u8 list"
  broker :: sockaddr

definition MQTT_BACKEND_FAMILY :: "kconfig \<Rightarrow> family" where
  "MQTT_BACKEND_FAMILY cfg = (if CONFIG_MQTT_BACKEND_IPV6 cfg then AF_INET6 else AF_INET)"

definition MQTT_BACKEND_CLIENT_ID_LEN_MAX :: "kconfig \<Rightarrow> nat" where
  "MQTT_BACKEND_CLIENT_ID_LEN_MAX cfg = CONFIG_MQTT_BACKEND_CLIENT_ID_MAX_LEN cfg"

definition UPDATE_TOPIC_LEN :: "kconfig \<Rightarrow> nat" where
  "UPDATE_TOPIC_LEN cfg = MQTT_BACKEND_CLIENT_ID_LEN_MAX cfg"

text \<open>
  \<open>snprintf(buf, size, "%s", arg)\<close>: at most \<open>size - 1\<close> characters of \<open>arg\<close> are stored
  (nothing when the size is 0), and the length of \<open>arg\<close> is returned.
\<close>

definition snprintf_s :: "string \<Rightarrow> nat \<Rightarrow> string \<Rightarrow> string \<times> int" where
  "snprintf_s buf n arg =
     ((if n = 0 then buf else take (n - 1) arg), int (length arg))"

definition mqtt_backend_topics_populate :: "platform \<Rightarrow> kconfig \<Rightarrow> mqtt_state \<Rightarrow> int \<times> mqtt_state" where
  "mqtt_backend_topics_populate P cfg s =
     (case snprintf_s (client_id_buf s) (MQTT_BACKEND_CLIENT_ID_LEN_MAX cfg + 1)
             (CONFIG_MQTT_BACKEND_CLIENT_ID_STATIC cfg) of
        (buf1, err1) \<Rightarrow>
          (let s1 = s\<lparr>client_id_buf := buf1\<rparr> in
           if err1 \<ge> int (MQTT_BACKEND_CLIENT_ID_LEN_MAX cfg) then (- ENOMEM P, s1)
           else
             (case snprintf_s (update_topic s1) (UPDATE_TOPIC_LEN cfg + 1) (client_id_buf s1) of
                (buf2, err2) \<Rightarrow>
                  (let s2 = s1\<lparr>update_topic := buf2\<rparr> in
                   if err2 \<ge> int (UPDATE_TOPIC_LEN cfg) then (- ENOMEM P, s2)
                   else (0, s2)))))"

text \<open>\<open>mqtt_backend_notify_event\<close> (standalone build).\<close>

definition mqtt_backend_notify_event :: "event option \<Rightarrow> mqtt_state \<Rightarrow> mqtt_state" where
  "mqtt_backend_notify_event e s =
     (case module_evt_handler s of
        None \<Rightarrow> s
      | Some f \<Rightarrow> (case e of None \<Rightarrow> s | Some ev \<Rightarrow> invoke (Some f) ev s))"

text \<open>
  \<open>mqtt_readall_publish_payload(c, buffer, length)\<close> is the MQTT library's: it stores
  what arrives, at most \<open>length\<close> bytes, from the start of \<open>buffer\<close>, and returns 0 or a
  negative error. The environment holds its return value and the bytes that arrive.
\<close>

record read_env =
  read_ret :: int
  read_bytes :: "u8 list"

definition mqtt_readall_publish_payload :: "read_env \<Rightarrow> nat \<Rightarrow> mqtt_state \<Rightarrow> int \<times> mqtt_state" where
  "mqtt_readall_publish_payload env len s =
     (let data = take len (read_bytes env)
      in (read_ret env,
          (call (Mqtt_readall_publish_payload len) s)
             \<lparr>payload_buf := data @ drop (length data) (payload_buf s)\<rparr>))"

definition publish_get_payload :: "platform \<Rightarrow> read_env \<Rightarrow> nat \<Rightarrow> mqtt_state \<Rightarrow> int \<times> mqtt_state" where
  "publish_get_payload P env len s =
     (if len > length (payload_buf s) then
        (- EMSGSIZE P, log LOG_ERR ''Incoming MQTT message too large for payload buffer'' s)
      else mqtt_readall_publish_payload env len s)"


text \<open>
  The events of the MQTT library that \<open>mqtt_evt_handler\<close> switches on, with the
  parameters it reads; \<open>MQTT_EVT_OTHER\<close> stands for every type that reaches \<open>default\<close>.
\<close>

datatype mqtt_qos = MQTT_QOS_0_AT_MOST_ONCE | MQTT_QOS_1_AT_LEAST_ONCE | MQTT_QOS_2_EXACTLY_ONCE

record mqtt_publish_param =
  message_id :: u16
  payload_len :: nat
  topic_qos :: mqtt_qos

datatype mqtt_evt =
    MQTT_EVT_CONNACK int
  | MQTT_EVT_DISCONNECT int
  | MQTT_EVT_PUBLISH mqtt_publish_param
  | MQTT_EVT_PUBACK u16 int
  | MQTT_EVT_SUBACK u16 int
  | MQTT_EVT_OTHER

text \<open>
  Each notification of \<open>mqtt_evt_handler\<close> is an \<open>#if defined(CONFIG_CLOUD_API)\<close> pair:
  \<open>cloud_notify_event\<close> with a \<open>struct cloud_event\<close> in the plugin build,
  \<open>mqtt_backend_notify_event\<close> with a \<open>struct mqtt_backend_evt\<close> otherwise.
\<close>

definition mqtt_notify :: "kconfig \<Rightarrow> cloud_evt_type \<Rightarrow> mqtt_backend_evt_type \<Rightarrow> u8 list option \<Rightarrow> nat \<Rightarrow> mqtt_state \<Rightarrow> mqtt_state" where
  "mqtt_notify cfg ck mk p n s =
     (if CONFIG_CLOUD_API cfg then
        cloud_notify_event \<lparr>evt_type = Cloud ck, evt_ptr = p, evt_len = n\<rparr> s
      else
        mqtt_backend_notify_event (Some \<lparr>evt_type = Mqtt mk, evt_ptr = p, evt_len = n\<rparr>) s)"

text \<open>
  \<open>mqtt_evt_handler\<close>. The plugin build reads \<open>mqtt_backend->config\<close> on entry. The
  standalone build spells the data event \<open>MQTT_BACKEND_DATA_RECEIVED\<close>; the header's
  member is \<open>MQTT_BACKEND_EVT_DATA_RECEIVED\<close>.
\<close>

definition mqtt_evt_handler :: "platform \<Rightarrow> kconfig \<Rightarrow> read_env \<Rightarrow> mqtt_evt \<Rightarrow> mqtt_state \<Rightarrow> mqtt_state" where
  "mqtt_evt_handler P cfg env mqtt_evt s0 =
     (let s = (if CONFIG_CLOUD_API cfg then
                 (if cloud_backend s0 then s0 else s0\<lparr>faulted := True\<rparr>)
               else s0)
      in case mqtt_evt of
           MQTT_EVT_CONNACK return_code \<Rightarrow>
             (let s1 = log LOG_DBG ''CONNACK, error: %d''
                         (log LOG_DBG ''MQTT client connected!'' s);
                  s2 = mqtt_notify cfg CLOUD_EVT_CONNECTED MQTT_BACKEND_EVT_CONNECTED None 0 s1
              in mqtt_notify cfg CLOUD_EVT_READY MQTT_BACKEND_EVT_READY None 0 s2)
         | MQTT_EVT_DISCONNECT result \<Rightarrow>
             mqtt_notify cfg CLOUD_EVT_DISCONNECTED MQTT_BACKEND_EVT_DISCONNECTED None 0
               (log LOG_DBG ''MQTT_EVT_DISCONNECT: result = %d'' s)
         | MQTT_EVT_PUBLISH p \<Rightarrow>
             (case publish_get_payload P env (payload_len p)
                     (log LOG_DBG ''MQTT_EVT_PUBLISH: id = %d len = %d '' s) of
                (err, s1) \<Rightarrow>
                  if err \<noteq> 0 then log LOG_ERR ''publish_get_payload, error: %d'' s1
                  else
                    (let s2 = (if topic_qos p = MQTT_QOS_1_AT_LEAST_ONCE
                               then call (Mqtt_publish_qos1_ack (message_id p)) s1 else s1)
                     in mqtt_notify cfg CLOUD_EVT_DATA_RECEIVED MQTT_BACKEND_EVT_DATA_RECEIVED
                          (Some (payload_buf s2)) (payload_len p) s2))
         | MQTT_EVT_PUBACK mid result \<Rightarrow>
             log LOG_DBG ''MQTT_EVT_PUBACK: id = %d result = %d'' s
         | MQTT_EVT_SUBACK mid result \<Rightarrow>
             log LOG_DBG ''MQTT_EVT_SUBACK: id = %d result = %d'' s
         | MQTT_EVT_OTHER \<Rightarrow> s)"

text \<open>
  The body of the \<open>while (addr != NULL)\<close> loop of \<open>broker_init\<close>. Each of its three
  paths ends in \<open>break\<close> (the last one after \<open>addr = addr->ai_next\<close>), so the body
  runs for the first entry and the loop is left.
\<close>

definition broker_init_loop :: "platform \<Rightarrow> kconfig \<Rightarrow> addrinfo list \<Rightarrow> mqtt_state \<Rightarrow> mqtt_state" where
  "broker_init_loop P cfg addrs s =
     (case addrs of
        [] \<Rightarrow> s
      | addr # next \<Rightarrow>
          if ai_addrlen addr = sizeof_sockaddr_in P \<and> MQTT_BACKEND_FAMILY cfg = AF_INET then
            log LOG_DBG ''IPv4 Address found %s''
              (s\<lparr>broker := Sockaddr_in (ai_addr_sin addr)
                                (htons (CONFIG_MQTT_BACKEND_BROKER_PORT cfg))\<rparr>)
          else if ai_addrlen addr = sizeof_sockaddr_in6 P \<and> MQTT_BACKEND_FAMILY cfg = AF_INET6 then
            log LOG_DBG ''IPv4 Address found %s''
              (s\<lparr>broker := Sockaddr_in6 (take 16 (ai_addr_sin6 addr))
                                (htons (CONFIG_MQTT_BACKEND_BROKER_PORT cfg))\<rparr>)
          else log LOG_DBG ''ai_addrlen = %u should be %u or %u'' s)"

definition broker_init :: "platform \<Rightarrow> kconfig \<Rightarrow> gai_result \<Rightarrow> mqtt_state \<Rightarrow> int \<times> mqtt_state" where
  "broker_init P cfg gai s =
     (let err = gai_err gai in
      if err \<noteq> 0 then (err, log LOG_ERR ''getaddrinfo, error %d'' s)
      else (err, call Freeaddrinfo (broker_init_loop P cfg (gai_list gai) s)))"

text \<open>
  \<open>mqtt_backend_init\<close>: the \<open>config\<close> argument is not read; the identifier is the
  Kconfig string.
\<close>

record mqtt_backend_config =
  mqtt_config_socket :: int
  client_id :: string
  client_id_len :: nat

definition mqtt_backend_init :: "platform \<Rightarrow> kconfig \<Rightarrow> mqtt_backend_config option \<Rightarrow> handler option \<Rightarrow> mqtt_state \<Rightarrow> int \<times> mqtt_state" where
  "mqtt_backend_init P cfg config event_handler s =
     (case mqtt_backend_topics_populate P cfg s of
        (err, s1) \<Rightarrow>
          if err \<noteq> 0 then (err, log LOG_ERR ''mqtt_backend_topics_populate, error: %d'' s1)
          else (err, (if CONFIG_CLOUD_API cfg then s1
                      else s1\<lparr>module_evt_handler := event_handler\<rparr>)))"

text \<open>The plugin build's \<open>c_init\<close> of \<open>mqtt_backend.c\<close>.\<close>

definition mqtt_c_init :: "platform \<Rightarrow> kconfig \<Rightarrow> handler option \<Rightarrow> mqtt_state \<Rightarrow> int \<times> mqtt_state" where
  "mqtt_c_init P cfg h s =
     (let s1 = s\<lparr>backend_config := (backend_config s)\<lparr>handler := h\<rparr>, cloud_backend := True\<rparr>;
          config = \<lparr>mqtt_config_socket = 0,
                    client_id = backend_id (backend_config s1),
                    client_id_len = length (backend_id (backend_config s1))\<rparr>
      in mqtt_backend_init P cfg (Some config) None s1)"

section \<open>Sample values\<close>

text \<open>
  A platform (newlib's \<open>errno.h\<close>, the sizes of Zephyr's address structures), a
  configuration for each build, and the states the static variables start in.
\<close>

definition sample_platform :: platform where
  "sample_platform =
     \<lparr>EIO = 5, ENOENT = 2, EAGAIN = 11, EWOULDBLOCK = 11, ENOMEM = 12, EMSGSIZE = 122,
      ESOCKTNOSUPPORT = 124, sizeof_sockaddr_in = 8, sizeof_sockaddr_in6 = 24\<rparr>"

definition sample_kconfig :: "bool \<Rightarrow> kconfig" where
  "sample_kconfig cloud =
     \<lparr>CONFIG_CLOUD_API = cloud, CONFIG_COAP_BACKEND_DTLS_ENABLE = False,
      CONFIG_MQTT_BACKEND_IPV6 = False, CONFIG_MQTT_BACKEND_CLIENT_ID_STATIC = ''dev1'',
      CONFIG_MQTT_BACKEND_CLIENT_ID_MAX_LEN = 8, CONFIG_MQTT_BACKEND_BROKER_PORT = 1883,
      CONFIG_COAP_BACKEND_SERVER_PORT = 5683, CONFIG_COAP_BACKEND_RESOURCE = ''data''\<rparr>"

definition backend_state0 :: backend_state where
  "backend_state0 =
     \<lparr>module_evt_handler = None, cloud_backend = False,
      backend_config = \<lparr>handler = None, socket = 0, backend_id = []\<rparr>,
      delivered = [], logged = [], calls = [], faulted = False\<rparr>"

definition coap_state0 :: coap_state where
  "coap_state0 =
     backend_state.extend backend_state0
       (coap_state.fields Sockaddr_zero 0 0 0)"

definition mqtt_state0 :: "nat \<Rightarrow> mqtt_state" where
  "mqtt_state0 n =
     backend_state.extend backend_state0
       (mqtt_state.fields [] [] (replicate n 0) Sockaddr_zero)"


definition sample_connect_env :: connect_env where
  "sample_connect_env =
     \<lparr>socket_ret = 3, socket_errno = 0, setsockopt_ret = 0, setsockopt_errno = 0,
      connect_ret = 0, connect_errno = 0, close_errno = 0, rand32 = 0xABCDFFFF\<rparr>"

definition sample_send_env :: send_env where
  "sample_send_env =
     \<lparr>send_id = 1, send_init_err = 0, send_option_err = 0, send_marker_err = 0,
      send_payload_err = 0, send_ret = 9, send_errno = 0\<rparr>"

definition sample_tx_data :: coap_backend_tx_data where
  "sample_tx_data = \<lparr>tx_str = [104, 105], tx_len = 2\<rparr>"

definition sample_read_env :: read_env where
  "sample_read_env = \<lparr>read_ret = 0, read_bytes = [1, 2, 3, 4, 5, 6]\<rparr>"

definition sample_id_kconfig :: "string \<Rightarrow> kconfig" where
  "sample_id_kconfig ident =
     (sample_kconfig False)\<lparr>CONFIG_MQTT_BACKEND_CLIENT_ID_STATIC := ident\<rparr>"

text \<open>A ready event, in any of the three event enumerations.\<close>

definition is_ready :: "handler \<times> event \<Rightarrow> bool" where
  "is_ready x =
     (evt_type (snd x) = Mqtt MQTT_BACKEND_EVT_READY \<or>
      evt_type (snd x) = Cloud CLOUD_EVT_READY \<or>
      evt_type (snd x) = Coap COAP_BACKEND_EVT_READY)"

text \<open>
  Resolver entries (an IPv4 and an IPv6 one), states after initialisation in each
  build, and environments of \<open>coap_backend_input\<close>.
\<close>

definition sample_addr4 :: addrinfo where
  "sample_addr4 = \<lparr>ai_family = AF_INET, ai_addrlen = 8, ai_addr_sin = 0x0100007F, ai_addr_sin6 = []\<rparr>"

definition sample_addr6 :: addrinfo where
  "sample_addr6 = \<lparr>ai_family = AF_INET6, ai_addrlen = 24, ai_addr_sin = 0,
                    ai_addr_sin6 = [0, 0, 0, 0, 0, 0, 0, 0, 0, 0, 0, 0, 0, 0, 0, 1]\<rparr>"

definition sample_gai :: "addrinfo list \<Rightarrow> gai_result" where
  "sample_gai l = \<lparr>gai_err = 0, gai_list = l\<rparr>"

definition mqtt_standalone_state :: mqtt_state where
  "mqtt_standalone_state =
     snd (mqtt_backend_init sample_platform (sample_kconfig False) None (Some 7) (mqtt_state0 16))"

definition mqtt_plugin_state :: mqtt_state where
  "mqtt_plugin_state =
     snd (mqtt_c_init sample_platform (sample_kconfig True) (Some 7) (mqtt_state0 16))"

definition coap_plugin_state :: coap_state where
  "coap_plugin_state = snd (coap_c_init (Some 7) coap_state0)"

definition sample_input_env :: "int \<Rightarrow> int \<Rightarrow> u8 list \<Rightarrow> input_env" where
  "sample_input_env n perr tok =
     \<lparr>received = n, recv_errno = 0, parse_err = perr, reply_payload = [111, 107],
      reply_token = tok, stack_token = [0, 0, 0, 0, 0, 0, 0, 0]\<rparr>"

definition coap_standalone_state :: coap_state where
  "coap_standalone_state = coap_state0\<lparr>module_evt_handler := Some 7\<rparr>"

definition would_block_env :: "int \<Rightarrow> input_env" where
  "would_block_env perr =
     \<lparr>received = - 1, recv_errno = 11, parse_err = perr, reply_payload = [],
      reply_token = [], stack_token = [0, 0, 0, 0, 0, 0, 0, 0]\<rparr>"

definition coap_sent_state :: "bool \<Rightarrow> coap_state" where
  "coap_sent_state cloud =
     snd (coap_backend_send (sample_kconfig cloud) sample_tx_data sample_send_env
            ((if cloud then coap_plugin_state else coap_standalone_state)
               \<lparr>next_token := 0x1234\<rparr>))"

section \<open>Basic facts about the history fields\<close>

lemma log_fields [simp]:
  "delivered (log l m s) = delivered s"
  "calls (log l m s) = calls s"
  "faulted (log l m s) = faulted s"
  "module_evt_handler (log l m s) = module_evt_handler s"
  "cloud_backend (log l m s) = cloud_backend s"
  "backend_config (log l m s) = backend_config s"
  "logged (log l m s) = logged s @ [(l, m)]"
  by (simp_all add: log_def)

lemma call_fields [simp]:
  "delivered (call c s) = delivered s"
  "calls (call c s) = calls s @ [c]"
  "faulted (call c s) = faulted s"
  "module_evt_handler (call c s) = module_evt_handler s"
  "cloud_backend (call c s) = cloud_backend s"
  "backend_config (call c s) = backend_config s"
  "logged (call c s) = logged s"
  by (simp_all add: call_def)

lemma coap_fields [simp]:
  "next_token (log l m s) = next_token s"
  "client_fd (log l m s) = client_fd s"
  "host_addr (log l m s) = host_addr s"
  "errno (log l m s) = errno s"
  "next_token (call c s) = next_token s"
  "client_fd (call c s) = client_fd s"
  "host_addr (call c s) = host_addr s"
  "errno (call c s) = errno s"
  by (simp_all add: log_def call_def)

section \<open>The token of the CoAP backend\<close>

lemma send_token: "next_token (snd (coap_backend_send cfg tx env s)) = next_token s + 1"
  by (simp add: coap_backend_send_def Let_def)

lemma send_calls:
  "\<exists>rest. calls (snd (coap_backend_send cfg tx env s)) =
      calls s @ Coap_packet_init APP_COAP_VERSION COAP_TYPE_NON_CON 2
                  (token_bytes (next_token s + 1)) COAP_METHOD_PUT (send_id env) # rest"
  by (simp add: coap_backend_send_def Let_def)

lemma connect_ok:
  assumes "0 \<le> socket_ret env"
    and "CONFIG_COAP_BACKEND_DTLS_ENABLE cfg \<longrightarrow> 0 \<le> setsockopt_ret env"
    and "0 \<le> connect_ret env"
  shows "fst (coap_backend_connect cfg config env s) = 0 \<and>
         next_token (snd (snd (coap_backend_connect cfg config env s))) = ucast (rand32 env)"
  using assms
  by (auto simp add: coap_backend_connect_def connect_expose_def Let_def split: option.splits)

lemma u16_succ: "unat ((x::u16) + 1) = (unat x + 1) mod 2 ^ 16"
  by (simp add: unat_word_ariths)

lemma ucast_succ: "unat ((ucast (r::u32) :: u16) + 1) = (unat r + 1) mod 2 ^ 16"
proof -
  have "unat (ucast r :: u16) = unat r mod 2 ^ 16"
    by (simp add: unsigned_ucast_eq take_bit_eq_mod)
  then show ?thesis
    by (simp add: u16_succ mod_Suc_eq)
qed

text \<open>
  C6. Whatever the token was and whichever way \<open>coap_backend_ping\<close> returns (packet
  initialisation failed, \<open>send\<close> failed, success), the stored token is 0 afterwards,
  and the message it builds is the first library call it makes: \<open>coap_packet_init\<close>
  with version 1, type confirmable, token length 0, no token, code 0 (the empty
  message) and the next message id.
\<close>

theorem C6_ping_resets_token:
  "next_token (snd (coap_backend_ping env s)) = 0 \<and>
   (\<exists>rest. calls (snd (coap_backend_ping env s)) =
      calls s @ Coap_packet_init APP_COAP_VERSION COAP_TYPE_CON 0 [] 0 (ping_id env) # rest)"
  by (simp add: coap_backend_ping_def Let_def)

text \<open>
  C10. When \<open>socket\<close>, \<open>setsockopt\<close> (DTLS build) and \<open>connect\<close> succeed,
  \<open>coap_backend_connect\<close> returns 0 and the stored token is the low 16 bits of the
  32-bit random value. The first \<open>coap_backend_send\<close> after it stores that value plus
  one modulo \<open>2 ^ 16\<close> and passes the two bytes of exactly that token to
  \<open>coap_packet_init\<close>. From any state, a send stores the old token plus one modulo
  \<open>2 ^ 16\<close>.
\<close>

theorem C10_connect_seeds_token:
  assumes "0 \<le> socket_ret env"
    and "CONFIG_COAP_BACKEND_DTLS_ENABLE cfg \<longrightarrow> 0 \<le> setsockopt_ret env"
    and "0 \<le> connect_ret env"
  shows "fst (coap_backend_connect cfg config env s) = 0 \<and>
         next_token (snd (snd (coap_backend_connect cfg config env s))) = ucast (rand32 env) \<and>
         next_token (snd (coap_backend_send cfg tx senv
                            (snd (snd (coap_backend_connect cfg config env s)))))
           = ucast (rand32 env) + 1 \<and>
         unat (next_token (snd (coap_backend_send cfg tx senv
                                  (snd (snd (coap_backend_connect cfg config env s))))))
           = (unat (rand32 env) + 1) mod 2 ^ 16 \<and>
         (\<exists>rest. calls (snd (coap_backend_send cfg tx senv
                                (snd (snd (coap_backend_connect cfg config env s))))) =
            calls (snd (snd (coap_backend_connect cfg config env s))) @
            Coap_packet_init APP_COAP_VERSION COAP_TYPE_NON_CON 2
              (token_bytes (ucast (rand32 env) + 1)) COAP_METHOD_PUT (send_id senv) # rest) \<and>
         unat (next_token (snd (coap_backend_send cfg tx senv s0)))
           = (unat (next_token s0) + 1) mod 2 ^ 16"
proof -
  let ?c = "coap_backend_connect cfg config env s"
  let ?s1 = "snd (snd ?c)"
  have ok: "fst ?c = 0" and tok: "next_token ?s1 = ucast (rand32 env)"
    using connect_ok [OF assms] by simp_all
  have nxt: "next_token (snd (coap_backend_send cfg tx senv ?s1)) = ucast (rand32 env) + 1"
    by (simp only: send_token tok)
  have val: "unat (next_token (snd (coap_backend_send cfg tx senv ?s1)))
               = (unat (rand32 env) + 1) mod 2 ^ 16"
    by (simp only: nxt ucast_succ)
  have sent: "\<exists>rest. calls (snd (coap_backend_send cfg tx senv ?s1)) =
            calls ?s1 @
            Coap_packet_init APP_COAP_VERSION COAP_TYPE_NON_CON 2
              (token_bytes (ucast (rand32 env) + 1)) COAP_METHOD_PUT (send_id senv) # rest"
    using send_calls [of cfg tx senv ?s1] by (simp only: tok)
  have wrap: "unat (next_token (snd (coap_backend_send cfg tx senv s0)))
                = (unat (next_token s0) + 1) mod 2 ^ 16"
    by (simp only: send_token u16_succ)
  from ok tok nxt val sent wrap show ?thesis
    by (intro conjI)
qed

theorem C10_witness:
  "fst (coap_backend_connect (sample_kconfig True) None sample_connect_env coap_state0) = 0 \<and>
   next_token (snd (snd (coap_backend_connect (sample_kconfig True) None
                           sample_connect_env coap_state0))) = 0xFFFF \<and>
   next_token (snd (coap_backend_send (sample_kconfig True) sample_tx_data sample_send_env
       (snd (snd (coap_backend_connect (sample_kconfig True) None
                    sample_connect_env coap_state0))))) = 0"
proof -
  have a: "0 \<le> socket_ret sample_connect_env"
    by (simp add: sample_connect_env_def)
  have b: "CONFIG_COAP_BACKEND_DTLS_ENABLE (sample_kconfig True)
             \<longrightarrow> 0 \<le> setsockopt_ret sample_connect_env"
    by (simp add: sample_connect_env_def)
  have c: "0 \<le> connect_ret sample_connect_env"
    by (simp add: sample_connect_env_def)
  have r: "ucast (rand32 sample_connect_env) = (0xFFFF :: u16)"
    by (simp add: sample_connect_env_def)
  show ?thesis
    using C10_connect_seeds_token
            [OF a b c, of None coap_state0 sample_tx_data sample_send_env coap_state0]
    by (simp add: r)
qed

section \<open>The MQTT backend: payload buffer and client identifier\<close>

lemma mqtt_fields [simp]:
  "payload_buf (log l m s) = payload_buf s"
  "client_id_buf (log l m s) = client_id_buf s"
  "update_topic (log l m s) = update_topic s"
  "broker (log l m s) = broker s"
  "payload_buf (call c s) = payload_buf s"
  "client_id_buf (call c s) = client_id_buf s"
  "update_topic (call c s) = update_topic s"
  "broker (call c s) = broker s"
  by (simp_all add: log_def call_def)

lemma mqtt_state0_fields [simp]:
  "payload_buf (mqtt_state0 n) = replicate n 0"
  "client_id_buf (mqtt_state0 n) = []"
  "update_topic (mqtt_state0 n) = []"
  "broker (mqtt_state0 n) = Sockaddr_zero"
  "calls (mqtt_state0 n) = []"
  "delivered (mqtt_state0 n) = []"
  "logged (mqtt_state0 n) = []"
  "faulted (mqtt_state0 n) = False"
  "module_evt_handler (mqtt_state0 n) = None"
  "cloud_backend (mqtt_state0 n) = False"
  "handler (backend_config (mqtt_state0 n)) = None"
  by (simp_all add: mqtt_state0_def backend_state0_def backend_state.defs mqtt_state.defs)

lemma sample_platform_fields [simp]:
  "EIO sample_platform = 5"
  "ENOENT sample_platform = 2"
  "EAGAIN sample_platform = 11"
  "EWOULDBLOCK sample_platform = 11"
  "ENOMEM sample_platform = 12"
  "EMSGSIZE sample_platform = 122"
  "ESOCKTNOSUPPORT sample_platform = 124"
  "sizeof_sockaddr_in sample_platform = 8"
  "sizeof_sockaddr_in6 sample_platform = 24"
  by (simp_all add: sample_platform_def)

lemma sample_id_kconfig_fields [simp]:
  "CONFIG_MQTT_BACKEND_CLIENT_ID_STATIC (sample_id_kconfig i) = i"
  "CONFIG_MQTT_BACKEND_CLIENT_ID_MAX_LEN (sample_id_kconfig i) = 8"
  "CONFIG_CLOUD_API (sample_id_kconfig i) = False"
  by (simp_all add: sample_id_kconfig_def sample_kconfig_def)

text \<open>
  C5. When the declared payload length of an inbound PUBLISH exceeds
  \<open>sizeof(payload_buf)\<close>, \<open>publish_get_payload\<close> returns \<open>-EMSGSIZE\<close>, makes no library
  call (nothing is read) and leaves the buffer as it was. When the length is at most
  the capacity, it calls \<open>mqtt_readall_publish_payload\<close> with that length, returns
  its result, and the buffer holds the bytes that were read at its start. In both
  cases the buffer keeps its size and every byte from index \<open>len\<close> on is untouched.
\<close>

theorem C5_publish_payload_bound:
  "(length (payload_buf s) < len \<longrightarrow>
      fst (publish_get_payload P env len s) = - EMSGSIZE P \<and>
      payload_buf (snd (publish_get_payload P env len s)) = payload_buf s \<and>
      calls (snd (publish_get_payload P env len s)) = calls s) \<and>
   (len \<le> length (payload_buf s) \<longrightarrow>
      fst (publish_get_payload P env len s) = read_ret env \<and>
      calls (snd (publish_get_payload P env len s))
        = calls s @ [Mqtt_readall_publish_payload len] \<and>
      payload_buf (snd (publish_get_payload P env len s))
        = take len (read_bytes env)
          @ drop (min len (length (read_bytes env))) (payload_buf s)) \<and>
   length (payload_buf (snd (publish_get_payload P env len s))) = length (payload_buf s) \<and>
   drop len (payload_buf (snd (publish_get_payload P env len s))) = drop len (payload_buf s)"
  by (auto simp add: publish_get_payload_def mqtt_readall_publish_payload_def Let_def min_def)

theorem C5_witness:
  "fst (publish_get_payload sample_platform sample_read_env 5 (mqtt_state0 4)) = - 122 \<and>
   payload_buf (snd (publish_get_payload sample_platform sample_read_env 5 (mqtt_state0 4)))
     = [0, 0, 0, 0] \<and>
   calls (snd (publish_get_payload sample_platform sample_read_env 5 (mqtt_state0 4))) = [] \<and>
   fst (publish_get_payload sample_platform sample_read_env 3 (mqtt_state0 4)) = 0 \<and>
   calls (snd (publish_get_payload sample_platform sample_read_env 3 (mqtt_state0 4)))
     = [Mqtt_readall_publish_payload 3] \<and>
   payload_buf (snd (publish_get_payload sample_platform sample_read_env 3 (mqtt_state0 4)))
     = [1, 2, 3, 0] \<and>
   length (payload_buf (snd (publish_get_payload sample_platform sample_read_env 3
                               (mqtt_state0 4)))) = 4"
proof -
  have r: "replicate 4 (0::u8) = [0, 0, 0, 0]"
    by (simp add: numeral_eq_Suc)
  show ?thesis
    using C5_publish_payload_bound [of "mqtt_state0 4" 5 sample_platform sample_read_env]
          C5_publish_payload_bound [of "mqtt_state0 4" 3 sample_platform sample_read_env]
    by (simp add: sample_read_env_def r)
qed

lemma populate_long:
  assumes "CONFIG_MQTT_BACKEND_CLIENT_ID_MAX_LEN cfg
             \<le> length (CONFIG_MQTT_BACKEND_CLIENT_ID_STATIC cfg)"
  shows "mqtt_backend_topics_populate P cfg s =
           (- ENOMEM P,
            s\<lparr>client_id_buf := take (CONFIG_MQTT_BACKEND_CLIENT_ID_MAX_LEN cfg)
                                   (CONFIG_MQTT_BACKEND_CLIENT_ID_STATIC cfg)\<rparr>)"
  using assms
  by (simp add: mqtt_backend_topics_populate_def snprintf_s_def
        MQTT_BACKEND_CLIENT_ID_LEN_MAX_def UPDATE_TOPIC_LEN_def Let_def)

lemma populate_short:
  assumes "length (CONFIG_MQTT_BACKEND_CLIENT_ID_STATIC cfg)
             < CONFIG_MQTT_BACKEND_CLIENT_ID_MAX_LEN cfg"
  shows "mqtt_backend_topics_populate P cfg s =
           (0, s\<lparr>client_id_buf := CONFIG_MQTT_BACKEND_CLIENT_ID_STATIC cfg,
                  update_topic := CONFIG_MQTT_BACKEND_CLIENT_ID_STATIC cfg\<rparr>)"
  using assms
  by (simp add: mqtt_backend_topics_populate_def snprintf_s_def
        MQTT_BACKEND_CLIENT_ID_LEN_MAX_def UPDATE_TOPIC_LEN_def Let_def)

text \<open>
  C4, as the code has it. The guard of \<open>mqtt_backend_topics_populate\<close> is
  \<open>err >= MQTT_BACKEND_CLIENT_ID_LEN_MAX\<close>. An identifier whose length is the maximum
  or more makes \<open>mqtt_backend_init\<close> return \<open>-ENOMEM\<close> (negative, \<open>ENOMEM\<close> being
  positive); \<open>update_topic\<close> and the registered observer are left as they were, and
  \<open>client_id_buf\<close> holds the first \<open>MAX\<close> characters of the identifier. An identifier
  strictly shorter than the maximum makes it return 0; \<open>client_id_buf\<close> and
  \<open>update_topic\<close> then hold the whole identifier, and the standalone build registers
  the handler.
\<close>

theorem C4_init_identifier_bound:
  "(CONFIG_MQTT_BACKEND_CLIENT_ID_MAX_LEN cfg
      \<le> length (CONFIG_MQTT_BACKEND_CLIENT_ID_STATIC cfg) \<and> 0 < ENOMEM P \<longrightarrow>
      fst (mqtt_backend_init P cfg config h s) = - ENOMEM P \<and>
      fst (mqtt_backend_init P cfg config h s) < 0 \<and>
      update_topic (snd (mqtt_backend_init P cfg config h s)) = update_topic s \<and>
      module_evt_handler (snd (mqtt_backend_init P cfg config h s)) = module_evt_handler s \<and>
      client_id_buf (snd (mqtt_backend_init P cfg config h s))
        = take (CONFIG_MQTT_BACKEND_CLIENT_ID_MAX_LEN cfg)
            (CONFIG_MQTT_BACKEND_CLIENT_ID_STATIC cfg)) \<and>
   (length (CONFIG_MQTT_BACKEND_CLIENT_ID_STATIC cfg)
      < CONFIG_MQTT_BACKEND_CLIENT_ID_MAX_LEN cfg \<longrightarrow>
      fst (mqtt_backend_init P cfg config h s) = 0 \<and>
      client_id_buf (snd (mqtt_backend_init P cfg config h s))
        = CONFIG_MQTT_BACKEND_CLIENT_ID_STATIC cfg \<and>
      update_topic (snd (mqtt_backend_init P cfg config h s))
        = CONFIG_MQTT_BACKEND_CLIENT_ID_STATIC cfg \<and>
      module_evt_handler (snd (mqtt_backend_init P cfg config h s))
        = (if CONFIG_CLOUD_API cfg then module_evt_handler s else h))"
proof (intro conjI impI)
  assume a: "length (CONFIG_MQTT_BACKEND_CLIENT_ID_STATIC cfg)
               < CONFIG_MQTT_BACKEND_CLIENT_ID_MAX_LEN cfg"
  show "fst (mqtt_backend_init P cfg config h s) = 0"
    by (simp add: mqtt_backend_init_def populate_short [OF a])
  show "client_id_buf (snd (mqtt_backend_init P cfg config h s))
          = CONFIG_MQTT_BACKEND_CLIENT_ID_STATIC cfg"
    by (simp add: mqtt_backend_init_def populate_short [OF a])
  show "update_topic (snd (mqtt_backend_init P cfg config h s))
          = CONFIG_MQTT_BACKEND_CLIENT_ID_STATIC cfg"
    by (simp add: mqtt_backend_init_def populate_short [OF a])
  show "module_evt_handler (snd (mqtt_backend_init P cfg config h s))
          = (if CONFIG_CLOUD_API cfg then module_evt_handler s else h)"
    by (simp add: mqtt_backend_init_def populate_short [OF a])
next
  assume b: "CONFIG_MQTT_BACKEND_CLIENT_ID_MAX_LEN cfg
               \<le> length (CONFIG_MQTT_BACKEND_CLIENT_ID_STATIC cfg) \<and> 0 < ENOMEM P"
  then have l: "CONFIG_MQTT_BACKEND_CLIENT_ID_MAX_LEN cfg
                  \<le> length (CONFIG_MQTT_BACKEND_CLIENT_ID_STATIC cfg)"
    and e: "0 < ENOMEM P"
    by simp_all
  show "fst (mqtt_backend_init P cfg config h s) = - ENOMEM P"
    using e by (simp add: mqtt_backend_init_def populate_long [OF l])
  show "fst (mqtt_backend_init P cfg config h s) < 0"
    using e by (simp add: mqtt_backend_init_def populate_long [OF l])
  show "update_topic (snd (mqtt_backend_init P cfg config h s)) = update_topic s"
    using e by (simp add: mqtt_backend_init_def populate_long [OF l])
  show "module_evt_handler (snd (mqtt_backend_init P cfg config h s)) = module_evt_handler s"
    using e by (simp add: mqtt_backend_init_def populate_long [OF l])
  show "client_id_buf (snd (mqtt_backend_init P cfg config h s))
          = take (CONFIG_MQTT_BACKEND_CLIENT_ID_MAX_LEN cfg)
              (CONFIG_MQTT_BACKEND_CLIENT_ID_STATIC cfg)"
    using e by (simp add: mqtt_backend_init_def populate_long [OF l])
qed

theorem C4_witness:
  "fst (mqtt_backend_init sample_platform (sample_id_kconfig ''abcdefghij'') None (Some 7)
          (mqtt_state0 16)) = - 12 \<and>
   update_topic (snd (mqtt_backend_init sample_platform (sample_id_kconfig ''abcdefghij'') None
                        (Some 7) (mqtt_state0 16))) = [] \<and>
   module_evt_handler (snd (mqtt_backend_init sample_platform (sample_id_kconfig ''abcdefghij'')
                              None (Some 7) (mqtt_state0 16))) = None \<and>
   fst (mqtt_backend_init sample_platform (sample_id_kconfig ''dev1'') None (Some 7)
          (mqtt_state0 16)) = 0 \<and>
   client_id_buf (snd (mqtt_backend_init sample_platform (sample_id_kconfig ''dev1'') None
                         (Some 7) (mqtt_state0 16))) = ''dev1'' \<and>
   update_topic (snd (mqtt_backend_init sample_platform (sample_id_kconfig ''dev1'') None
                        (Some 7) (mqtt_state0 16))) = ''dev1'' \<and>
   module_evt_handler (snd (mqtt_backend_init sample_platform (sample_id_kconfig ''dev1'') None
                              (Some 7) (mqtt_state0 16))) = Some 7"
  using C4_init_identifier_bound
          [of "sample_id_kconfig ''abcdefghij''" sample_platform None "Some 7" "mqtt_state0 16"]
        C4_init_identifier_bound
          [of "sample_id_kconfig ''dev1''" sample_platform None "Some 7" "mqtt_state0 16"]
  by simp

text \<open>
  The claim as stated fails at the boundary: an identifier of exactly the maximum
  length (8 characters, maximum 8) is within the bound and fits the buffer, and
  \<open>mqtt_backend_init\<close> returns \<open>-ENOMEM\<close>. After a failed initialisation with a longer
  identifier, \<open>client_id_buf\<close> holds its truncation.
\<close>

theorem C4_counterexample:
  "length (CONFIG_MQTT_BACKEND_CLIENT_ID_STATIC (sample_id_kconfig ''abcdefgh''))
     \<le> CONFIG_MQTT_BACKEND_CLIENT_ID_MAX_LEN (sample_id_kconfig ''abcdefgh'') \<and>
   fst (mqtt_backend_init sample_platform (sample_id_kconfig ''abcdefgh'') None (Some 7)
          (mqtt_state0 16)) = - 12 \<and>
   client_id_buf (snd (mqtt_backend_init sample_platform (sample_id_kconfig ''abcdefghij'') None
                         (Some 7) (mqtt_state0 16))) = ''abcdefgh''"
  by (simp add: mqtt_backend_init_def populate_long)

section \<open>Sample states\<close>

lemma sample_kconfig_fields [simp]:
  "CONFIG_CLOUD_API (sample_kconfig b) = b"
  "CONFIG_COAP_BACKEND_DTLS_ENABLE (sample_kconfig b) = False"
  "CONFIG_MQTT_BACKEND_IPV6 (sample_kconfig b) = False"
  "CONFIG_MQTT_BACKEND_CLIENT_ID_STATIC (sample_kconfig b) = ''dev1''"
  "CONFIG_MQTT_BACKEND_CLIENT_ID_MAX_LEN (sample_kconfig b) = 8"
  "CONFIG_MQTT_BACKEND_BROKER_PORT (sample_kconfig b) = 1883"
  "CONFIG_COAP_BACKEND_SERVER_PORT (sample_kconfig b) = 5683"
  "CONFIG_COAP_BACKEND_RESOURCE (sample_kconfig b) = ''data''"
  by (simp_all add: sample_kconfig_def)

lemma coap_state0_fields [simp]:
  "host_addr coap_state0 = Sockaddr_zero"
  "client_fd coap_state0 = 0"
  "next_token coap_state0 = 0"
  "errno coap_state0 = 0"
  "calls coap_state0 = []"
  "delivered coap_state0 = []"
  "logged coap_state0 = []"
  "faulted coap_state0 = False"
  "module_evt_handler coap_state0 = None"
  "cloud_backend coap_state0 = False"
  "handler (backend_config coap_state0) = None"
  by (simp_all add: coap_state0_def backend_state0_def backend_state.defs coap_state.defs)

lemma mqtt_standalone_state_fields [simp]:
  "module_evt_handler mqtt_standalone_state = Some 7"
  "delivered mqtt_standalone_state = []"
  by (simp_all add: mqtt_standalone_state_def mqtt_backend_init_def populate_short)

lemma mqtt_plugin_state_fields [simp]:
  "cloud_backend mqtt_plugin_state"
  "handler (backend_config mqtt_plugin_state) = Some 7"
  "delivered mqtt_plugin_state = []"
  by (simp_all add: mqtt_plugin_state_def mqtt_c_init_def mqtt_backend_init_def populate_short Let_def)

lemma coap_plugin_state_fields [simp]:
  "cloud_backend coap_plugin_state"
  "handler (backend_config coap_plugin_state) = Some 7"
  "module_evt_handler coap_plugin_state = None"
  "delivered coap_plugin_state = []"
  "next_token coap_plugin_state = 0"
  "client_fd coap_plugin_state = 0"
  "calls coap_plugin_state = []"
  "logged coap_plugin_state = []"
  by (simp_all add: coap_plugin_state_def coap_c_init_def)

lemma sample_input_env_fields [simp]:
  "received (sample_input_env n perr tok) = n"
  "recv_errno (sample_input_env n perr tok) = 0"
  "parse_err (sample_input_env n perr tok) = perr"
  "reply_token (sample_input_env n perr tok) = tok"
  "stack_token (sample_input_env n perr tok) = [0, 0, 0, 0, 0, 0, 0, 0]"
  by (simp_all add: sample_input_env_def)

lemma coap_standalone_state_fields [simp]:
  "module_evt_handler coap_standalone_state = Some 7"
  "delivered coap_standalone_state = []"
  "next_token coap_standalone_state = 0"
  "client_fd coap_standalone_state = 0"
  "calls coap_standalone_state = []"
  "logged coap_standalone_state = []"
  by (simp_all add: coap_standalone_state_def)

section \<open>Notifications\<close>

lemma notify_event_fields [simp]:
  "client_fd (coap_backend_notify_event e s) = client_fd s"
  "next_token (coap_backend_notify_event e s) = next_token s"
  "calls (coap_backend_notify_event e s) = calls s"
  "logged (coap_backend_notify_event e s) = logged s"
  "delivered (coap_backend_notify_event e s)
     = delivered s @ (case module_evt_handler s of
                        None \<Rightarrow> []
                      | Some h \<Rightarrow> (case e of None \<Rightarrow> [] | Some ev \<Rightarrow> [(h, ev)]))"
  by (simp_all add: coap_backend_notify_event_def invoke_def split: option.splits)

lemma cloud_notify_fields [simp]:
  "client_fd (cloud_notify_event e s) = client_fd s"
  "next_token (cloud_notify_event e s) = next_token s"
  "calls (cloud_notify_event e s) = calls s"
  "logged (cloud_notify_event e s) = logged s"
  "cloud_backend (cloud_notify_event e s) = cloud_backend s"
  "backend_config (cloud_notify_event e s) = backend_config s"
  "module_evt_handler (cloud_notify_event e s) = module_evt_handler s"
  by (simp_all add: cloud_notify_event_def invoke_def split: option.splits)

lemma cloud_notify_delivered:
  "cloud_backend s \<Longrightarrow> handler (backend_config s) = Some h \<Longrightarrow>
   delivered (cloud_notify_event e s) = delivered s @ [(h, e)]"
  by (simp add: cloud_notify_event_def invoke_def)

lemma notify_without_observer:
  "module_evt_handler s = None \<Longrightarrow> coap_backend_notify_event e s = s"
  "module_evt_handler m = None \<Longrightarrow> mqtt_backend_notify_event e m = m"
  by (simp_all add: coap_backend_notify_event_def mqtt_backend_notify_event_def)

lemma mqtt_notify_standalone:
  "\<not> CONFIG_CLOUD_API cfg \<Longrightarrow> module_evt_handler s = Some h \<Longrightarrow>
   mqtt_notify cfg ck mk p n s
     = s\<lparr>delivered := delivered s @ [(h, \<lparr>evt_type = Mqtt mk, evt_ptr = p, evt_len = n\<rparr>)]\<rparr>"
  by (simp add: mqtt_notify_def mqtt_backend_notify_event_def invoke_def)

lemma mqtt_notify_cloud:
  "CONFIG_CLOUD_API cfg \<Longrightarrow> cloud_backend s \<Longrightarrow> handler (backend_config s) = Some h \<Longrightarrow>
   mqtt_notify cfg ck mk p n s
     = s\<lparr>delivered := delivered s @ [(h, \<lparr>evt_type = Cloud ck, evt_ptr = p, evt_len = n\<rparr>)]\<rparr>"
  by (simp add: mqtt_notify_def cloud_notify_event_def invoke_def)

lemma mqtt_notify_not_ready:
  assumes "ck \<noteq> CLOUD_EVT_READY" and "mk \<noteq> MQTT_BACKEND_EVT_READY"
  shows "filter is_ready (delivered (mqtt_notify cfg ck mk p n s)) = filter is_ready (delivered s)"
  using assms
  by (simp add: mqtt_notify_def mqtt_backend_notify_event_def cloud_notify_event_def invoke_def
        is_ready_def split: option.splits)

lemma publish_get_payload_delivered [simp]:
  "delivered (snd (publish_get_payload P env len s)) = delivered s"
  by (simp add: publish_get_payload_def mqtt_readall_publish_payload_def Let_def)

section \<open>Connected and ready\<close>

lemma connack_standalone:
  assumes "\<not> CONFIG_CLOUD_API cfg" and "module_evt_handler s = Some h"
  shows "delivered (mqtt_evt_handler P cfg env (MQTT_EVT_CONNACK rc) s)
           = delivered s @ [(h, evt (Mqtt MQTT_BACKEND_EVT_CONNECTED)),
                            (h, evt (Mqtt MQTT_BACKEND_EVT_READY))]"
  using assms
  by (simp add: mqtt_evt_handler_def Let_def mqtt_notify_standalone evt_def)

lemma connack_cloud:
  assumes "CONFIG_CLOUD_API cfg" and "cloud_backend s" and "handler (backend_config s) = Some h"
  shows "delivered (mqtt_evt_handler P cfg env (MQTT_EVT_CONNACK rc) s)
           = delivered s @ [(h, evt (Cloud CLOUD_EVT_CONNECTED)),
                            (h, evt (Cloud CLOUD_EVT_READY))]"
  using assms
  by (simp add: mqtt_evt_handler_def Let_def mqtt_notify_cloud evt_def)

lemma other_events_not_ready:
  assumes "\<forall>rc. e \<noteq> MQTT_EVT_CONNACK rc"
  shows "filter is_ready (delivered (mqtt_evt_handler P cfg env e s)) = filter is_ready (delivered s)"
proof (cases e)
  case (MQTT_EVT_CONNACK rc)
  with assms show ?thesis by simp
next
  case (MQTT_EVT_DISCONNECT r)
  then show ?thesis
    by (simp add: mqtt_evt_handler_def Let_def mqtt_notify_not_ready)
next
  case (MQTT_EVT_PUBLISH p)
  obtain err s1 where r: "publish_get_payload P env (payload_len p)
      (log LOG_DBG ''MQTT_EVT_PUBLISH: id = %d len = %d ''
         (if CONFIG_CLOUD_API cfg then (if cloud_backend s then s else s\<lparr>faulted := True\<rparr>) else s)) = (err, s1)"
    by (cases "publish_get_payload P env (payload_len p)
      (log LOG_DBG ''MQTT_EVT_PUBLISH: id = %d len = %d ''
         (if CONFIG_CLOUD_API cfg then (if cloud_backend s then s else s\<lparr>faulted := True\<rparr>) else s))")
  have d: "delivered s1 = delivered s"
    using publish_get_payload_delivered [of P env "payload_len p"
      "log LOG_DBG ''MQTT_EVT_PUBLISH: id = %d len = %d ''
         (if CONFIG_CLOUD_API cfg then (if cloud_backend s then s else s\<lparr>faulted := True\<rparr>) else s)"] r
    by simp
  show ?thesis
    using MQTT_EVT_PUBLISH r d
    by (simp add: mqtt_evt_handler_def Let_def mqtt_notify_not_ready)
next
  case (MQTT_EVT_PUBACK m r)
  then show ?thesis by (simp add: mqtt_evt_handler_def Let_def)
next
  case (MQTT_EVT_SUBACK m r)
  then show ?thesis by (simp add: mqtt_evt_handler_def Let_def)
next
  case MQTT_EVT_OTHER
  then show ?thesis by (simp add: mqtt_evt_handler_def Let_def)
qed

lemma server_resolve_keeps:
  "delivered (snd (server_resolve P cfg gai s)) = delivered s \<and>
   backend_config (snd (server_resolve P cfg gai s)) = backend_config s"
  by (simp add: server_resolve_def split: list.splits)

lemma connect_keeps:
  "delivered (snd (snd (coap_backend_connect cfg config env s))) = delivered s \<and>
   backend_config (snd (snd (coap_backend_connect cfg config env s))) = backend_config s"
  by (simp add: coap_backend_connect_def connect_error_def connect_expose_def Let_def
      split: option.splits prod.splits)

lemma c_connect_events:
  assumes "handler (backend_config s) = Some h"
  shows "delivered (snd (coap_c_connect P cfg gai env s))
           = delivered s @ (if fst (coap_c_connect P cfg gai env s) = 0
                            then [(h, evt (Cloud CLOUD_EVT_CONNECTED)),
                                  (h, evt (Cloud CLOUD_EVT_READY))]
                            else [])"
proof -
  obtain e1 s1 where r1: "coap_backend_init P cfg None None gai s = (e1, s1)"
    by (cases "coap_backend_init P cfg None None gai s")
  obtain e2 c2 s2 where r2: "coap_backend_connect cfg None env s1 = (e2, c2, s2)"
    by (cases "coap_backend_connect cfg None env s1")
  have k1: "delivered s1 = delivered s" "backend_config s1 = backend_config s"
    using server_resolve_keeps [of P cfg gai s] r1 by (simp_all add: coap_backend_init_def)
  have k2: "delivered s2 = delivered s1" "backend_config s2 = backend_config s1"
    using connect_keeps [of cfg None env s1] r2 by simp_all
  show ?thesis
    using assms k1 k2
    by (simp add: coap_c_connect_def r1 r2 Let_def invoke_def)
qed

lemma input_error_delivered:
  "(case input_error P cfg s of Inl r \<Rightarrow> filter is_ready (delivered (snd r))
                               | Inr s1 \<Rightarrow> filter is_ready (delivered s1))
     = filter is_ready (delivered s)"
  by (simp add: input_error_def cloud_notify_event_def coap_backend_notify_event_def invoke_def
        is_ready_def evt_def split: option.splits)

lemma input_reply_delivered [simp]:
  "delivered (snd (input_reply env s)) = delivered s"
  by (simp add: input_reply_def Let_def)

lemma input_datagram_not_ready:
  "filter is_ready (delivered (snd (input_datagram P cfg env s))) = filter is_ready (delivered s)"
  using input_error_delivered [of P cfg "log LOG_ERR ''Malformed response received: %d'' s"]
  by (auto simp add: input_datagram_def split: sum.splits)

lemma input_not_ready:
  "filter is_ready (delivered (snd (coap_backend_input P cfg env s))) = filter is_ready (delivered s)"
proof -
  let ?s = "s\<lparr>errno := recv_errno env\<rparr>"
  have "filter is_ready (delivered (snd (coap_backend_input P cfg env s)))
          = filter is_ready (delivered ?s)"
    using input_error_delivered [of P cfg "log LOG_DBG ''Socket error, exit...'' ?s"]
    by (auto simp add: coap_backend_input_def Let_def input_datagram_not_ready split: sum.splits)
  then show ?thesis by simp
qed

lemma sample_c_connect_ok:
  "fst (coap_c_connect sample_platform (sample_kconfig True) (sample_gai [sample_addr4])
          sample_connect_env coap_plugin_state) = 0"
  by (simp add: coap_c_connect_def coap_backend_init_def server_resolve_def sample_gai_def
        coap_backend_connect_def connect_expose_def sample_connect_env_def Let_def)

text \<open>
  C7, as the code has it. On \<open>MQTT_EVT_CONNACK\<close> the MQTT backend hands its observer
  exactly two events, connected then ready, in both builds (the standalone build's
  registered \<open>module_evt_handler\<close>, the plugin build's handler behind
  \<open>cloud_notify_event\<close>). The plugin build's \<open>c_connect\<close> of the CoAP backend hands
  the handler exactly connected then ready when it returns 0, and nothing when it
  returns an error. No other MQTT event and no call of \<open>coap_backend_input\<close> delivers
  a ready event, so a ready event always directly follows its connected event.
  \<open>coap_backend_connect\<close> itself, which is the whole connect operation of the
  standalone build, delivers no event.
\<close>

theorem C7_connected_then_ready:
  "(\<not> CONFIG_CLOUD_API cfg \<and> module_evt_handler s = Some h \<longrightarrow>
      delivered (mqtt_evt_handler P cfg env (MQTT_EVT_CONNACK rc) s)
        = delivered s @ [(h, evt (Mqtt MQTT_BACKEND_EVT_CONNECTED)),
                         (h, evt (Mqtt MQTT_BACKEND_EVT_READY))]) \<and>
   (CONFIG_CLOUD_API cfg \<and> cloud_backend s \<and> handler (backend_config s) = Some h \<longrightarrow>
      delivered (mqtt_evt_handler P cfg env (MQTT_EVT_CONNACK rc) s)
        = delivered s @ [(h, evt (Cloud CLOUD_EVT_CONNECTED)),
                         (h, evt (Cloud CLOUD_EVT_READY))]) \<and>
   (handler (backend_config c) = Some h \<longrightarrow>
      delivered (snd (coap_c_connect P cfg gai cenv c))
        = delivered c @ (if fst (coap_c_connect P cfg gai cenv c) = 0
                         then [(h, evt (Cloud CLOUD_EVT_CONNECTED)),
                               (h, evt (Cloud CLOUD_EVT_READY))]
                         else [])) \<and>
   ((\<forall>r. e \<noteq> MQTT_EVT_CONNACK r) \<longrightarrow>
      filter is_ready (delivered (mqtt_evt_handler P cfg env e s)) = filter is_ready (delivered s)) \<and>
   filter is_ready (delivered (snd (coap_backend_input P cfg ienv c)))
     = filter is_ready (delivered c) \<and>
   delivered (snd (snd (coap_backend_connect cfg config cenv c))) = delivered c"
  using connack_standalone [of cfg s h P env rc] connack_cloud [of cfg s h P env rc]
        c_connect_events [of c h P cfg gai cenv] other_events_not_ready [of e P cfg env s]
        input_not_ready [of P cfg ienv c] connect_keeps [of cfg config cenv c]
  by blast

theorem C7_witness:
  "delivered (mqtt_evt_handler sample_platform (sample_kconfig False) sample_read_env
                (MQTT_EVT_CONNACK 0) mqtt_standalone_state)
     = [(7, evt (Mqtt MQTT_BACKEND_EVT_CONNECTED)), (7, evt (Mqtt MQTT_BACKEND_EVT_READY))] \<and>
   delivered (mqtt_evt_handler sample_platform (sample_kconfig True) sample_read_env
                (MQTT_EVT_CONNACK 0) mqtt_plugin_state)
     = [(7, evt (Cloud CLOUD_EVT_CONNECTED)), (7, evt (Cloud CLOUD_EVT_READY))] \<and>
   delivered (snd (coap_c_connect sample_platform (sample_kconfig True) (sample_gai [sample_addr4])
                     sample_connect_env coap_plugin_state))
     = [(7, evt (Cloud CLOUD_EVT_CONNECTED)), (7, evt (Cloud CLOUD_EVT_READY))]"
  using C7_connected_then_ready
          [of "sample_kconfig False" mqtt_standalone_state 7 sample_platform sample_read_env 0
              coap_plugin_state "sample_gai [sample_addr4]" sample_connect_env]
        C7_connected_then_ready
          [of "sample_kconfig True" mqtt_plugin_state 7 sample_platform sample_read_env 0
              coap_plugin_state "sample_gai [sample_addr4]" sample_connect_env]
  by (simp add: sample_c_connect_ok)

text \<open>
  The claim as stated fails for the standalone build of the CoAP backend: with an
  observer in \<open>module_evt_handler\<close>, \<open>coap_backend_connect\<close> succeeds (returns 0) and
  no event is delivered.
\<close>

theorem C7_counterexample:
  "fst (coap_backend_connect (sample_kconfig False) (Some \<lparr>config_socket = 0\<rparr>)
          sample_connect_env coap_standalone_state) = 0 \<and>
   module_evt_handler coap_standalone_state = Some 7 \<and>
   delivered (snd (snd (coap_backend_connect (sample_kconfig False) (Some \<lparr>config_socket = 0\<rparr>)
                          sample_connect_env coap_standalone_state))) = []"
  by (simp add: coap_backend_connect_def connect_expose_def sample_connect_env_def Let_def)

section \<open>Input of the CoAP backend\<close>

lemma input_malformed_standalone:
  assumes "received env \<noteq> EAGAIN P" and "received env \<noteq> EWOULDBLOCK P"
    and "0 < received env" and "parse_err env < 0" and "\<not> CONFIG_CLOUD_API cfg"
  shows "coap_backend_input P cfg env s =
           (- ESOCKTNOSUPPORT P,
            coap_backend_notify_event (Some (evt (Coap COAP_BACKEND_EVT_ERROR)))
              (log LOG_ERR ''Malformed response received: %d'' (s\<lparr>errno := recv_errno env\<rparr>)))"
  using assms
  by (simp add: coap_backend_input_def input_datagram_def input_error_def Let_def)

lemma input_malformed_cloud:
  assumes "received env \<noteq> EAGAIN P" and "received env \<noteq> EWOULDBLOCK P"
    and "0 < received env" and "parse_err env < 0" and "CONFIG_CLOUD_API cfg"
  shows "coap_backend_input P cfg env s =
           input_reply env
             (cloud_notify_event (evt (Cloud CLOUD_EVT_ERROR))
                (log LOG_ERR ''Malformed response received: %d'' (s\<lparr>errno := recv_errno env\<rparr>)))"
  using assms
  by (simp add: coap_backend_input_def input_datagram_def input_error_def Let_def)

lemma input_reply_fields [simp]:
  "client_fd (snd (input_reply env s)) = client_fd s"
  "next_token (snd (input_reply env s)) = next_token s"
  "calls (snd (input_reply env s)) = calls s"
  by (simp_all add: input_reply_def Let_def)

lemma input_reply_logged:
  "\<exists>l. logged (snd (input_reply env s)) = logged s @ [l]"
  by (simp add: input_reply_def Let_def)

text \<open>
  C8, as the code has it. When a datagram has arrived (\<open>recv\<close> returned a positive
  length that is neither \<open>EAGAIN\<close> nor \<open>EWOULDBLOCK\<close>) and \<open>coap_packet_parse\<close> fails,
  \<open>coap_backend_input\<close> logs \<open>Malformed response received\<close> and raises an error event:
  the standalone build hands \<open>COAP_BACKEND_EVT_ERROR\<close> to the registered observer (to
  nobody when none is registered) and returns \<open>-ESOCKTNOSUPPORT\<close>; the plugin build
  hands \<open>CLOUD_EVT_ERROR\<close> to the registered handler. The socket descriptor and the
  token are unchanged and no library call (no \<open>close\<close>) is made.
\<close>

theorem C8_malformed_raises_error:
  assumes "received env \<noteq> EAGAIN P" and "received env \<noteq> EWOULDBLOCK P"
    and "0 < received env" and "parse_err env < 0"
  shows "(\<not> CONFIG_CLOUD_API cfg \<longrightarrow>
            fst (coap_backend_input P cfg env s) = - ESOCKTNOSUPPORT P \<and>
            delivered (snd (coap_backend_input P cfg env s))
              = delivered s @ (case module_evt_handler s of
                                 None \<Rightarrow> []
                               | Some h \<Rightarrow> [(h, evt (Coap COAP_BACKEND_EVT_ERROR))])) \<and>
         (CONFIG_CLOUD_API cfg \<and> cloud_backend s \<and> handler (backend_config s) = Some g \<longrightarrow>
            delivered (snd (coap_backend_input P cfg env s))
              = delivered s @ [(g, evt (Cloud CLOUD_EVT_ERROR))]) \<and>
         (\<exists>rest. logged (snd (coap_backend_input P cfg env s))
                    = logged s @ (LOG_ERR, ''Malformed response received: %d'') # rest) \<and>
         client_fd (snd (coap_backend_input P cfg env s)) = client_fd s \<and>
         next_token (snd (coap_backend_input P cfg env s)) = next_token s \<and>
         calls (snd (coap_backend_input P cfg env s)) = calls s"
proof (cases "CONFIG_CLOUD_API cfg")
  case False
  note eq = input_malformed_standalone [OF assms False, of s]
  show ?thesis
    using False by (simp add: eq split: option.splits)
next
  case True
  note eq = input_malformed_cloud [OF assms True, of s]
  let ?s1 = "cloud_notify_event (evt (Cloud CLOUD_EVT_ERROR))
               (log LOG_ERR ''Malformed response received: %d'' (s\<lparr>errno := recv_errno env\<rparr>))"
  obtain l where l: "logged (snd (input_reply env ?s1)) = logged ?s1 @ [l]"
    using input_reply_logged [of env ?s1] by blast
  have lg: "\<exists>rest. logged (snd (coap_backend_input P cfg env s))
                    = logged s @ (LOG_ERR, ''Malformed response received: %d'') # rest"
    by (simp add: eq l)
  have dl: "cloud_backend s \<and> handler (backend_config s) = Some g \<longrightarrow>
            delivered (snd (coap_backend_input P cfg env s))
              = delivered s @ [(g, evt (Cloud CLOUD_EVT_ERROR))]"
    by (simp add: eq cloud_notify_delivered)
  have rest: "client_fd (snd (coap_backend_input P cfg env s)) = client_fd s"
    "next_token (snd (coap_backend_input P cfg env s)) = next_token s"
    "calls (snd (coap_backend_input P cfg env s)) = calls s"
    by (simp_all add: eq)
  show ?thesis
    using True lg dl rest by simp
qed

theorem C8_witness:
  "fst (coap_backend_input sample_platform (sample_kconfig False) (sample_input_env 20 (- 22) [])
          coap_standalone_state) = - 124 \<and>
   delivered (snd (coap_backend_input sample_platform (sample_kconfig False)
                     (sample_input_env 20 (- 22) []) coap_standalone_state))
     = [(7, evt (Coap COAP_BACKEND_EVT_ERROR))] \<and>
   delivered (snd (coap_backend_input sample_platform (sample_kconfig True)
                     (sample_input_env 20 (- 22) []) coap_plugin_state))
     = [(7, evt (Cloud CLOUD_EVT_ERROR))] \<and>
   calls (snd (coap_backend_input sample_platform (sample_kconfig True)
                 (sample_input_env 20 (- 22) []) coap_plugin_state)) = []"
proof -
  have a: "received (sample_input_env 20 (- 22) []) \<noteq> EAGAIN sample_platform"
    and b: "received (sample_input_env 20 (- 22) []) \<noteq> EWOULDBLOCK sample_platform"
    and c: "0 < received (sample_input_env 20 (- 22) [])"
    and d: "parse_err (sample_input_env 20 (- 22) []) < 0"
    by simp_all
  show ?thesis
    using C8_malformed_raises_error [OF a b c d, of "sample_kconfig False" coap_standalone_state 7]
          C8_malformed_raises_error [OF a b c d, of "sample_kconfig True" coap_plugin_state 7]
    by simp
qed

text \<open>
  The claim as stated fails: on a malformed datagram the standalone build returns
  \<open>-ESOCKTNOSUPPORT\<close> (not success), and the plugin build delivers an error event to
  the handler.
\<close>

theorem C8_counterexample:
  "0 < received (sample_input_env 20 (- 22) []) \<and>
   parse_err (sample_input_env 20 (- 22) []) < 0 \<and>
   fst (coap_backend_input sample_platform (sample_kconfig False) (sample_input_env 20 (- 22) [])
          coap_state0) = - 124 \<and>
   fst (coap_backend_input sample_platform (sample_kconfig False) (sample_input_env 20 (- 22) [])
          coap_state0) \<noteq> 0 \<and>
   delivered (snd (coap_backend_input sample_platform (sample_kconfig True)
                     (sample_input_env 20 (- 22) []) coap_plugin_state))
     = [(7, evt (Cloud CLOUD_EVT_ERROR))]"
  by (simp add: coap_backend_input_def input_datagram_def input_error_def input_reply_def
        Let_def cloud_notify_delivered)

lemma coap_sent_state_fields [simp]:
  "next_token (coap_sent_state b) = 0x1235"
  "delivered (coap_sent_state b) = []"
  "module_evt_handler (coap_sent_state False) = Some 7"
  "cloud_backend (coap_sent_state True)"
  "handler (backend_config (coap_sent_state True)) = Some 7"
  by (simp_all add: coap_sent_state_def coap_backend_send_def sample_send_env_def Let_def)



lemma token_bytes_length [simp]: "length (token_bytes t) = 2"
  by (simp add: token_bytes_def)







text \<open>
  C3 on the code. When nothing is pending, \<open>recv\<close> returns \<open>-1\<close> with \<open>errno\<close> set to
  \<open>EAGAIN\<close>. The code compares the return value with \<open>EAGAIN\<close> and \<open>EWOULDBLOCK\<close>, so
  \<open>-1\<close> reaches the \<open>received < 0\<close> branch: the standalone build returns
  \<open>-ESOCKTNOSUPPORT\<close>, the plugin build delivers one error event (two when the parse
  of the stale buffer fails as well). A datagram of exactly \<open>EAGAIN\<close> = 11 bytes is
  what takes the would-block exit.
\<close>

theorem C3_would_block_is_error:
  "fst (coap_backend_input sample_platform (sample_kconfig False) (would_block_env 0)
          coap_state0) = - 124 \<and>
   delivered (snd (coap_backend_input sample_platform (sample_kconfig True) (would_block_env 0)
                     coap_plugin_state))
     = [(7, evt (Cloud CLOUD_EVT_ERROR))] \<and>
   delivered (snd (coap_backend_input sample_platform (sample_kconfig True) (would_block_env (- 22))
                     coap_plugin_state))
     = [(7, evt (Cloud CLOUD_EVT_ERROR)), (7, evt (Cloud CLOUD_EVT_ERROR))] \<and>
   fst (coap_backend_input sample_platform (sample_kconfig False) (sample_input_env 11 0 [])
          coap_state0) = 0"
  by (simp add: coap_backend_input_def input_datagram_def input_error_def input_reply_def
        would_block_env_def Let_def cloud_notify_delivered token_array_def token_bytes_def)

section \<open>Resolver and observer registration\<close>

text \<open>
  C2 on the code. With the IPv4 build and the resolver's list [IPv6 entry, IPv4
  entry], \<open>broker_init\<close> looks at the first entry only (the loop body ends in an
  unconditional \<open>break\<close>), finds no match, returns 0 and leaves \<open>broker\<close> unwritten;
  with the list in the other order it stores the IPv4 address. With an IPv6 entry
  alone it still returns 0. \<open>server_resolve\<close> copies the first entry through the IPv4
  view without any test.
\<close>

theorem C2_only_first_candidate:
  "fst (broker_init sample_platform (sample_kconfig True) (sample_gai [sample_addr6, sample_addr4])
          (mqtt_state0 16)) = 0 \<and>
   broker (snd (broker_init sample_platform (sample_kconfig True)
                  (sample_gai [sample_addr6, sample_addr4]) (mqtt_state0 16))) = Sockaddr_zero \<and>
   broker (snd (broker_init sample_platform (sample_kconfig True)
                  (sample_gai [sample_addr4, sample_addr6]) (mqtt_state0 16)))
     = Sockaddr_in 0x0100007F (htons 1883) \<and>
   fst (broker_init sample_platform (sample_kconfig True) (sample_gai [sample_addr6])
          (mqtt_state0 16)) = 0 \<and>
   fst (server_resolve sample_platform (sample_kconfig True)
          (sample_gai [sample_addr6, sample_addr4]) coap_state0) = 0 \<and>
   host_addr (snd (server_resolve sample_platform (sample_kconfig True)
                     (sample_gai [sample_addr6, sample_addr4]) coap_state0))
     = Sockaddr_in 0 (htons 5683)"
  by (simp add: broker_init_def broker_init_loop_def server_resolve_def sample_gai_def
        sample_addr4_def sample_addr6_def MQTT_BACKEND_FAMILY_def Let_def)

text \<open>
  C9 on the code. In the standalone build \<open>coap_backend_init\<close> succeeds with handler 7
  passed in, and \<open>module_evt_handler\<close> is still \<open>NULL\<close>: an error event notified
  afterwards reaches nobody.
\<close>

theorem C9_coap_init_drops_handler:
  "fst (coap_backend_init sample_platform (sample_kconfig False) (Some \<lparr>config_socket = 0\<rparr>)
          (Some 7) (sample_gai [sample_addr4]) coap_state0) = 0 \<and>
   module_evt_handler
     (snd (coap_backend_init sample_platform (sample_kconfig False) (Some \<lparr>config_socket = 0\<rparr>)
             (Some 7) (sample_gai [sample_addr4]) coap_state0)) = None \<and>
   delivered
     (coap_backend_notify_event (Some (evt (Coap COAP_BACKEND_EVT_ERROR)))
        (snd (coap_backend_init sample_platform (sample_kconfig False)
                (Some \<lparr>config_socket = 0\<rparr>) (Some 7) (sample_gai [sample_addr4]) coap_state0)))
     = []"
  by (simp add: coap_backend_init_def server_resolve_def sample_gai_def)

end
